theory Spec2Isabelle
  imports Complex_Main
begin

section \<open>The C binding layer of FLANN (src/cpp/flann.cpp)\<close>

text \<open>
  The development embeds the functions of \<^verbatim>\<open>flann.cpp\<close>: the two converters between
  the C parameter block and the loosely typed parameter map, the initialisation of the
  process-wide settings, and the exported entry points with their exception handlers.

  Conventions of the embedding.
  \<^item> A C \<^verbatim>\<open>int\<close>, \<^verbatim>\<open>long\<close> or enumeration value is an \<^typ>\<open>int\<close>; the file does no
    arithmetic on them, so no overflow can happen.
  \<^item> A \<^verbatim>\<open>float\<close> is the real number it denotes. NaN and the infinities are not
    represented, and the rounding of the literal \<^verbatim>\<open>0.4\<close> to single precision is not
    either.
  \<^item> A \<^verbatim>\<open>const char*\<close> is an address together with the characters found there, so
    that both the comparison of two pointers and the text are available.
  \<^item> A pointer is \<^term>\<open>None\<close> for \<^verbatim>\<open>NULL\<close> or \<^term>\<open>Some a\<close> for the address
    \<open>a\<close>; the element \<open>i\<close> of an array that starts at \<open>a\<close> is at \<open>a + i\<close>.
  \<^item> An exception is a value: a computation returns \<^term>\<open>Inl e\<close> for the exception
    \<open>e\<close> and \<^term>\<open>Inr v\<close> for the result \<open>v\<close>, together with the state it leaves.
\<close>

subsection \<open>Strings and the two static name tables\<close>

datatype cstr = CStr (addr: nat) (chars: string)

definition ptr_eq :: "cstr \<Rightarrow> cstr \<Rightarrow> bool" where
  \<comment> \<open>\<^verbatim>\<open>a == b\<close> on two \<^verbatim>\<open>const char*\<close>: the addresses are compared, not the text.\<close>
  "ptr_eq a b = (addr a = addr b)"

definition algos :: "cstr list" where
  "algos = [CStr 0 ''linear'', CStr 1 ''kdtree'', CStr 2 ''kmeans'',
            CStr 3 ''composite'', CStr 4 ''vptree'']"

definition centers_algos :: "cstr list" where
  "centers_algos = [CStr 5 ''random'', CStr 6 ''gonzales'', CStr 7 ''kmeanspp'']"

definition random_literal :: cstr where
  \<comment> \<open>The literal \<^verbatim>\<open>"random"\<close> of line 50. It is a second occurrence of the text of
      \<^verbatim>\<open>centers_algos[0]\<close>; whether the compiler gives both one address is not fixed by
      the language, and the model takes the case where it does not.\<close>
  "random_literal = CStr 8 ''random''"

definition ARRAY_LEN :: "'a list \<Rightarrow> int" where
  "ARRAY_LEN a = int (length a)"

definition CENTERS_RANDOM :: int where
  \<comment> \<open>Modelled from the spec: the enumeration \<^verbatim>\<open>flann_centers_init_t\<close> of flann.h is
      not in src. Section 6 lists the values as random, gonzales, kmeanspp, in the order
      of the table \<^verbatim>\<open>centers_algos\<close> that the source indexes with them.\<close>
  "CENTERS_RANDOM = 0"

definition LINEAR :: int where
  \<comment> \<open>Modelled from the spec: the enumeration \<^verbatim>\<open>flann_algorithm_t\<close> of flann.h is not
      in src. Section 6 lists linear first, as the table \<^verbatim>\<open>algos\<close> does.\<close>
  "LINEAR = 0"

subsection \<open>Exceptions\<close>

datatype exn =
    RuntimeError string   \<comment> \<open>a \<^verbatim>\<open>std::runtime_error\<close>, \<^verbatim>\<open>FLANNException\<close> included, with its \<^verbatim>\<open>what()\<close>\<close>
  | OtherException        \<comment> \<open>any other C++ exception; only \<^verbatim>\<open>catch (...)\<close> stops it\<close>
  | Undefined             \<comment> \<open>no exception at all: a null or dangling pointer was used\<close>

definition FLANNException :: "string \<Rightarrow> exn" where
  \<comment> \<open>Modelled from the spec: the class is not in src. Every handler of the file that is
      meant to stop it is \<^verbatim>\<open>catch (runtime_error&)\<close>, so it is a runtime error.\<close>
  "FLANNException msg = RuntimeError msg"

subsection \<open>The parameter map\<close>

text \<open>
  Modelled from the spec: the classes \<^verbatim>\<open>Params\<close> and \<^verbatim>\<open>Variant\<close> (common.h) are not in
  src. Section 3 describes \<^verbatim>\<open>Params\<close> as a mapping from an option name to a value that is
  an integer, a float or a string. The source converts a looked-up value with a cast inside
  \<^verbatim>\<open>try\<close>, so the cast of an absent value, or of a value of another type, raises; section 9
  says that a string value is compared by pointer identity, so the value holds the pointer.
\<close>

datatype variant = VInt int | VFloat real | VString cstr

type_synonym Params = "string \<rightharpoonup> variant"

definition illegal_conversion :: exn where
  "illegal_conversion = FLANNException ''Variant: illegal conversion''"

fun to_int :: "variant option \<Rightarrow> exn + int" where
  "to_int (Some (VInt i)) = Inr i"
| "to_int _ = Inl illegal_conversion"

fun to_float :: "variant option \<Rightarrow> exn + real" where
  "to_float (Some (VFloat x)) = Inr x"
| "to_float _ = Inl illegal_conversion"

fun to_cstr :: "variant option \<Rightarrow> exn + cstr" where
  "to_cstr (Some (VString s)) = Inr s"
| "to_cstr _ = Inl illegal_conversion"

subsection \<open>The C parameter block\<close>

text \<open>
  The declaration of the struct (flann.h) is not in src; the record has the fields that
  \<^verbatim>\<open>flann.cpp\<close> reads or writes.
\<close>

record FLANNParameters =
  log_level :: int
  log_destination :: "cstr option"
  random_seed :: int
  algorithm :: int
  checks :: int
  cb_index :: real
  trees :: int
  branching :: int
  iterations :: int
  centers_init :: int
  target_precision :: real
  build_weight :: real
  memory_weight :: real
  sample_fraction :: real

subsection \<open>parametersToParams\<close>

definition parametersToParams :: "FLANNParameters \<Rightarrow> Params" where
  "parametersToParams parameters =
     (let p = Map.empty;
          p = p(''checks'' \<mapsto> VInt (checks parameters));
          p = p(''cb_index'' \<mapsto> VFloat (cb_index parameters));
          p = p(''trees'' \<mapsto> VInt (trees parameters));
          p = p(''max-iterations'' \<mapsto> VInt (iterations parameters));
          p = p(''branching'' \<mapsto> VInt (branching parameters));
          p = p(''target-precision'' \<mapsto> VFloat (target_precision parameters));
          p = (if centers_init parameters \<ge> 0 \<and> centers_init parameters < ARRAY_LEN centers_algos
               then p(''centers-init'' \<mapsto> VString (centers_algos ! nat (centers_init parameters)))
               else p(''centers-init'' \<mapsto> VString random_literal));
          p = (if algorithm parameters \<ge> 0 \<and> algorithm parameters < ARRAY_LEN algos
               then p(''algorithm'' \<mapsto> VString (algos ! nat (algorithm parameters)))
               else p)
      in p)"

subsection \<open>paramsToParameters\<close>

text \<open>
  The first loop of the source compares inside \<^verbatim>\<open>try\<close> with an empty \<^verbatim>\<open>catch (...)\<close>:
  a failing read of the key is dropped and the loop goes on with the next entry. The
  second loop has no handler: a failing read of \<^verbatim>\<open>"algorithm"\<close> leaves the function.
\<close>

fun centers_init_loop :: "nat \<Rightarrow> cstr list \<Rightarrow> Params \<Rightarrow> int \<Rightarrow> int" where
  "centers_init_loop algo_id [] params ci = ci"
| "centers_init_loop algo_id (algo # rest) params ci =
     (case to_cstr (params ''centers-init'') of
        Inr s \<Rightarrow> if ptr_eq algo s then int algo_id
                 else centers_init_loop (Suc algo_id) rest params ci
      | Inl e \<Rightarrow> centers_init_loop (Suc algo_id) rest params ci)"

fun algorithm_loop :: "nat \<Rightarrow> cstr list \<Rightarrow> Params \<Rightarrow> int \<Rightarrow> exn + int" where
  "algorithm_loop algo_id [] params a = Inr a"
| "algorithm_loop algo_id (algo # rest) params a =
     (case to_cstr (params ''algorithm'') of
        Inr s \<Rightarrow> if ptr_eq algo s then Inr (int algo_id)
                 else algorithm_loop (Suc algo_id) rest params a
      | Inl e \<Rightarrow> Inl e)"

definition paramsToParameters :: "FLANNParameters \<Rightarrow> Params \<Rightarrow> exn + FLANNParameters" where
  \<comment> \<open>\<open>p0\<close> is the content of the local \<^verbatim>\<open>FLANNParameters p;\<close> before the first
      assignment: the source does not initialise it.\<close>
  "paramsToParameters p0 params =
     (let p = p0;
          p = p\<lparr>checks := (case to_int (params ''checks'') of Inr v \<Rightarrow> v | Inl e \<Rightarrow> -1)\<rparr>;
          p = p\<lparr>cb_index := (case to_float (params ''cb_index'') of Inr v \<Rightarrow> v | Inl e \<Rightarrow> 0.4)\<rparr>;
          p = p\<lparr>trees := (case to_int (params ''trees'') of Inr v \<Rightarrow> v | Inl e \<Rightarrow> -1)\<rparr>;
          p = p\<lparr>iterations := (case to_int (params ''max-iterations'') of Inr v \<Rightarrow> v | Inl e \<Rightarrow> -1)\<rparr>;
          p = p\<lparr>branching := (case to_int (params ''branching'') of Inr v \<Rightarrow> v | Inl e \<Rightarrow> -1)\<rparr>;
          p = p\<lparr>target_precision :=
                 (case to_float (params ''target-precision'') of Inr v \<Rightarrow> v | Inl e \<Rightarrow> -1)\<rparr>;
          p = p\<lparr>centers_init := CENTERS_RANDOM\<rparr>;
          p = p\<lparr>centers_init := centers_init_loop 0 centers_algos params (centers_init p)\<rparr>;
          p = p\<lparr>algorithm := LINEAR\<rparr>
      in case algorithm_loop 0 algos params (algorithm p) of
           Inl e \<Rightarrow> Inl e
         | Inr a \<Rightarrow> Inr (p\<lparr>algorithm := a\<rparr>))"

subsection \<open>The machine state\<close>

text \<open>
  The state holds what \<^verbatim>\<open>flann.cpp\<close> itself reads or writes: the logger, the random
  generator, the set of live index objects, and the memory behind the pointers that the
  file dereferences (parameter blocks, \<^verbatim>\<open>float\<close> cells, \<^verbatim>\<open>int\<close> cells). A cell that is
  not in the domain of its map is not allocated; using it is undefined behaviour. The
  state of the collaborating classes (index structures, datasets and the matrices that
  only they touch, timers) is the component \<open>ext\<close>, of a type that is left open.

  Two components record what happened: \<open>logged\<close> has the messages handed to the logger
  by this file, without the final newline and with the format string in place of a
  formatted timer value, and \<open>calls\<close> has the calls made to the collaborators, in order.

  Modelled from the spec: the classes \<^verbatim>\<open>Logger\<close> and the function \<^verbatim>\<open>seed_random\<close> are
  not in src. Section 6 gives the logger a verbosity level and a destination, and says
  that a seed re-seeds the global generator; the state of the generator is represented
  by the seeds it was given.
\<close>

type_synonym pointer = "nat option"

datatype log_entry = Info string | Error string

datatype Dataset = Dataset int int pointer

datatype Autotune = Autotune real real real

datatype call =
    Call_create_index cstr Dataset Params
  | Call_buildIndex nat
  | Call_veclen nat
  | Call_findNeighbors nat real pointer int Params
  | Call_search_for_neighbors nat Dataset Dataset Dataset Params
  | Call_Autotune real real real
  | Call_estimateBuildIndexParams Autotune Dataset real
  | Call_estimateSearchParams Autotune nat Dataset real Params
  | Call_KMeansTree Dataset Params
  | Call_getClusterCenters nat int pointer
  | Call_delete nat

record 'x world =
  logger_level :: int
  logger_destination :: "cstr option"
  logged :: "log_entry list"
  seeds :: "int list"
  calls :: "call list"
  live :: "nat set"
  params_mem :: "nat \<rightharpoonup> FLANNParameters"
  float_mem :: "nat \<rightharpoonup> real"
  int_mem :: "nat \<rightharpoonup> int"
  ext :: 'x

type_synonym ('a, 'x) comp = "'x world \<Rightarrow> (exn + 'a) \<times> 'x world"

definition ereturn :: "'a \<Rightarrow> ('a, 'x) comp" where
  "ereturn v w = (Inr v, w)"

definition throw :: "exn \<Rightarrow> ('a, 'x) comp" where
  "throw e w = (Inl e, w)"

definition ebind :: "('a, 'x) comp \<Rightarrow> ('a \<Rightarrow> ('b, 'x) comp) \<Rightarrow> ('b, 'x) comp" where
  "ebind m f w = (case m w of (Inl e, w') \<Rightarrow> (Inl e, w') | (Inr v, w') \<Rightarrow> f v w')"

definition lift :: "exn + 'a \<Rightarrow> ('a, 'x) comp" where
  "lift r w = (r, w)"

definition try_catch_runtime_error ::
  "('a, 'x) comp \<Rightarrow> (string \<Rightarrow> ('a, 'x) comp) \<Rightarrow> ('a, 'x) comp" where
  \<comment> \<open>\<^verbatim>\<open>try { m } catch (runtime_error& e) { h(e.what()) }\<close>\<close>
  "try_catch_runtime_error m h w =
     (case m w of
        (Inl (RuntimeError msg), w') \<Rightarrow> h msg w'
      | r \<Rightarrow> r)"

subsection \<open>Memory\<close>

definition read_params :: "pointer \<Rightarrow> (FLANNParameters, 'x) comp" where
  "read_params p w =
     (case p of
        None \<Rightarrow> (Inl Undefined, w)
      | Some a \<Rightarrow> (case params_mem w a of
                    None \<Rightarrow> (Inl Undefined, w)
                  | Some v \<Rightarrow> (Inr v, w)))"

definition write_params :: "pointer \<Rightarrow> FLANNParameters \<Rightarrow> (unit, 'x) comp" where
  "write_params p v w =
     (case p of
        None \<Rightarrow> (Inl Undefined, w)
      | Some a \<Rightarrow> (case params_mem w a of
                    None \<Rightarrow> (Inl Undefined, w)
                  | Some old \<Rightarrow> (Inr (), w\<lparr>params_mem := (params_mem w)(a \<mapsto> v)\<rparr>)))"

definition write_float :: "pointer \<Rightarrow> int \<Rightarrow> real \<Rightarrow> (unit, 'x) comp" where
  \<comment> \<open>\<^verbatim>\<open>p[i] = v\<close> for a \<^verbatim>\<open>float* p\<close> and \<open>0 \<le> i\<close>\<close>
  "write_float p i v w =
     (case p of
        None \<Rightarrow> (Inl Undefined, w)
      | Some a \<Rightarrow> (case float_mem w (a + nat i) of
                    None \<Rightarrow> (Inl Undefined, w)
                  | Some old \<Rightarrow> (Inr (), w\<lparr>float_mem := (float_mem w)(a + nat i \<mapsto> v)\<rparr>)))"

definition write_int :: "pointer \<Rightarrow> int \<Rightarrow> int \<Rightarrow> (unit, 'x) comp" where
  \<comment> \<open>\<^verbatim>\<open>p[i] = v\<close> for an \<^verbatim>\<open>int* p\<close> and \<open>0 \<le> i\<close>\<close>
  "write_int p i v w =
     (case p of
        None \<Rightarrow> (Inl Undefined, w)
      | Some a \<Rightarrow> (case int_mem w (a + nat i) of
                    None \<Rightarrow> (Inl Undefined, w)
                  | Some old \<Rightarrow> (Inr (), w\<lparr>int_mem := (int_mem w)(a + nat i \<mapsto> v)\<rparr>)))"

subsection \<open>Logger and random generator\<close>

definition logger_info :: "string \<Rightarrow> (unit, 'x) comp" where
  "logger_info msg w = (Inr (), w\<lparr>logged := logged w @ [Info msg]\<rparr>)"

definition logger_error :: "string \<Rightarrow> (unit, 'x) comp" where
  "logger_error msg w = (Inr (), w\<lparr>logged := logged w @ [Error msg]\<rparr>)"

definition seed_random :: "int \<Rightarrow> (unit, 'x) comp" where
  "seed_random seed w = (Inr (), w\<lparr>seeds := seeds w @ [seed]\<rparr>)"

definition flann_log_verbosity :: "int \<Rightarrow> (unit, 'x) comp" where
  "flann_log_verbosity level w =
     (if level \<ge> 0 then (Inr (), w\<lparr>logger_level := level\<rparr>) else (Inr (), w))"

definition flann_log_destination :: "cstr option \<Rightarrow> (unit, 'x) comp" where
  "flann_log_destination destination w = (Inr (), w\<lparr>logger_destination := destination\<rparr>)"

definition init_flann_parameters :: "pointer \<Rightarrow> (unit, 'x) comp" where
  "init_flann_parameters p =
     (if p \<noteq> None then
        ebind (read_params p) (\<lambda>fp.
        ebind (flann_log_verbosity (log_level fp)) (\<lambda>_.
        ebind (flann_log_destination (log_destination fp)) (\<lambda>_.
        if random_seed fp > 0 then seed_random (random_seed fp) else ereturn ())))
      else ereturn ())"

subsection \<open>The collaborators\<close>

text \<open>
  The index classes, the index factory, the autotuner and the search driver are not in
  src. They are parameters of the model: each is a function on the collaborators' state
  that returns a value or raises. \<open>uninitialized\<close> is the content of the storage that
  \<^verbatim>\<open>paramsToParameters\<close> gets for its local block. An object is named by its address; a
  method call on an address that is not live is undefined behaviour.
\<close>

record 'x collaborators =
  ext_create_index :: "cstr \<Rightarrow> Dataset \<Rightarrow> Params \<Rightarrow> 'x \<Rightarrow> (exn + nat) \<times> 'x"
  ext_buildIndex :: "nat \<Rightarrow> 'x \<Rightarrow> (exn + unit) \<times> 'x"
  ext_veclen :: "nat \<Rightarrow> 'x \<Rightarrow> (exn + int) \<times> 'x"
  ext_findNeighbors ::
    "nat \<Rightarrow> real \<Rightarrow> pointer \<Rightarrow> int \<Rightarrow> Params \<Rightarrow> 'x \<Rightarrow> (exn + (int \<times> real) list) \<times> 'x"
  ext_search_for_neighbors ::
    "nat \<Rightarrow> Dataset \<Rightarrow> Dataset \<Rightarrow> Dataset \<Rightarrow> Params \<Rightarrow> 'x \<Rightarrow> (exn + unit) \<times> 'x"
  ext_estimateBuildIndexParams :: "Autotune \<Rightarrow> Dataset \<Rightarrow> real \<Rightarrow> 'x \<Rightarrow> (exn + Params) \<times> 'x"
  ext_estimateSearchParams ::
    "Autotune \<Rightarrow> nat \<Rightarrow> Dataset \<Rightarrow> real \<Rightarrow> Params \<Rightarrow> 'x \<Rightarrow> (exn + Params) \<times> 'x"
  ext_KMeansTree :: "Dataset \<Rightarrow> Params \<Rightarrow> 'x \<Rightarrow> (exn + nat) \<times> 'x"
  ext_getClusterCenters :: "nat \<Rightarrow> int \<Rightarrow> pointer \<Rightarrow> 'x \<Rightarrow> (exn + int) \<times> 'x"
  ext_delete :: "nat \<Rightarrow> 'x \<Rightarrow> 'x"
  uninitialized :: FLANNParameters

definition call_ext :: "call \<Rightarrow> ('x \<Rightarrow> (exn + 'a) \<times> 'x) \<Rightarrow> ('a, 'x) comp" where
  "call_ext c f w =
     (let w1 = w\<lparr>calls := calls w @ [c]\<rparr>
      in case f (ext w1) of (r, x') \<Rightarrow> (r, w1\<lparr>ext := x'\<rparr>))"

definition on_live :: "nat \<Rightarrow> ('a, 'x) comp \<Rightarrow> ('a, 'x) comp" where
  "on_live h m w = (if h \<in> live w then m w else (Inl Undefined, w))"

definition new_object :: "(nat, 'x) comp \<Rightarrow> (nat, 'x) comp" where
  \<comment> \<open>a constructor that returns: the object at the returned address is live from now on\<close>
  "new_object m = ebind m (\<lambda>h w. (Inr h, w\<lparr>live := insert h (live w)\<rparr>))"

definition create_index ::
  "'x collaborators \<Rightarrow> cstr \<Rightarrow> Dataset \<Rightarrow> Params \<Rightarrow> (nat, 'x) comp" where
  "create_index env name inputData params =
     new_object (call_ext (Call_create_index name inputData params)
                          (ext_create_index env name inputData params))"

definition buildIndex :: "'x collaborators \<Rightarrow> nat \<Rightarrow> (unit, 'x) comp" where
  "buildIndex env index = on_live index (call_ext (Call_buildIndex index) (ext_buildIndex env index))"

definition veclen :: "'x collaborators \<Rightarrow> nat \<Rightarrow> (int, 'x) comp" where
  "veclen env index = on_live index (call_ext (Call_veclen index) (ext_veclen env index))"

definition findNeighbors ::
  "'x collaborators \<Rightarrow> nat \<Rightarrow> real \<Rightarrow> pointer \<Rightarrow> int \<Rightarrow> Params \<Rightarrow> ((int \<times> real) list, 'x) comp" where
  \<comment> \<open>\<^verbatim>\<open>RadiusResultSet resultSet(radius); resultSet.init(query, len);
      index->findNeighbors(resultSet, query, searchParams)\<close>: the result is the content of
      the result set after the search, the pairs that \<^verbatim>\<open>getNeighbors()\<close> and
      \<^verbatim>\<open>getDistances()\<close> give, \<^verbatim>\<open>size()\<close> many\<close>
  "findNeighbors env index radius query len searchParams =
     on_live index (call_ext (Call_findNeighbors index radius query len searchParams)
                             (ext_findNeighbors env index radius query len searchParams))"

definition search_for_neighbors ::
  "'x collaborators \<Rightarrow> nat \<Rightarrow> Dataset \<Rightarrow> Dataset \<Rightarrow> Dataset \<Rightarrow> Params \<Rightarrow> (unit, 'x) comp" where
  "search_for_neighbors env index testset result_set dists_set searchParams =
     on_live index (call_ext (Call_search_for_neighbors index testset result_set dists_set searchParams)
                             (ext_search_for_neighbors env index testset result_set dists_set searchParams))"

definition estimateBuildIndexParams ::
  "'x collaborators \<Rightarrow> Autotune \<Rightarrow> Dataset \<Rightarrow> real \<Rightarrow> (Params, 'x) comp" where
  "estimateBuildIndexParams env autotuner inputData precision =
     call_ext (Call_estimateBuildIndexParams autotuner inputData precision)
              (ext_estimateBuildIndexParams env autotuner inputData precision)"

definition estimateSearchParams ::
  "'x collaborators \<Rightarrow> Autotune \<Rightarrow> nat \<Rightarrow> Dataset \<Rightarrow> real \<Rightarrow> Params \<Rightarrow> (Params, 'x) comp" where
  \<comment> \<open>the map is passed by reference; the result is its content after the call\<close>
  "estimateSearchParams env autotuner index inputData precision params =
     on_live index
       (call_ext (Call_estimateSearchParams autotuner index inputData precision params)
                 (ext_estimateSearchParams env autotuner index inputData precision params))"

definition new_Autotune :: "real \<Rightarrow> real \<Rightarrow> real \<Rightarrow> (Autotune, 'x) comp" where
  "new_Autotune bw mw sf w = (Inr (Autotune bw mw sf), w\<lparr>calls := calls w @ [Call_Autotune bw mw sf]\<rparr>)"

definition new_KMeansTree :: "'x collaborators \<Rightarrow> Dataset \<Rightarrow> Params \<Rightarrow> (nat, 'x) comp" where
  "new_KMeansTree env inputData params =
     new_object (call_ext (Call_KMeansTree inputData params) (ext_KMeansTree env inputData params))"

definition getClusterCenters :: "'x collaborators \<Rightarrow> nat \<Rightarrow> int \<Rightarrow> pointer \<Rightarrow> (int, 'x) comp" where
  "getClusterCenters env kmeans clusters result =
     on_live kmeans (call_ext (Call_getClusterCenters kmeans clusters result)
                              (ext_getClusterCenters env kmeans clusters result))"

definition delete :: "'x collaborators \<Rightarrow> nat \<Rightarrow> (unit, 'x) comp" where
  \<comment> \<open>\<^verbatim>\<open>delete index\<close> on a pointer that is not null: the destructor runs and the object
      is gone\<close>
  "delete env index =
     on_live index (\<lambda>w. (Inr (), w\<lparr>calls := calls w @ [Call_delete index],
                                   live := live w - {index},
                                   ext := ext_delete env index (ext w)\<rparr>))"

definition with_object :: "'x collaborators \<Rightarrow> nat \<Rightarrow> ('a, 'x) comp \<Rightarrow> ('a, 'x) comp" where
  \<comment> \<open>the scope of an object with automatic storage: its destructor runs when the scope
      is left, by a return or by an exception\<close>
  "with_object env h body w =
     (case body w of
        (Inl Undefined, w') \<Rightarrow> (Inl Undefined, w')
      | (r, w') \<Rightarrow> (case delete env h w' of
                      (Inl e, w'') \<Rightarrow> (Inl e, w'')
                    | (Inr u, w'') \<Rightarrow> (r, w'')))"

definition modify_params :: "pointer \<Rightarrow> (FLANNParameters \<Rightarrow> FLANNParameters) \<Rightarrow> (unit, 'x) comp" where
  \<comment> \<open>an assignment to one field through the pointer\<close>
  "modify_params p f = ebind (read_params p) (\<lambda>v. write_params p (f v))"

definition caught :: "'a \<Rightarrow> string \<Rightarrow> ('a, 'x) comp" where
  \<comment> \<open>the handler that every entry point has:
      \<^verbatim>\<open>logger.error("Caught exception: %s\n", e.what()); return sentinel;\<close>\<close>
  "caught sentinel what = ebind (logger_error (''Caught exception: '' @ what)) (\<lambda>_. ereturn sentinel)"

subsection \<open>flann_build_index\<close>

text \<open>
  The body of the \<^verbatim>\<open>try\<close> block comes first and the entry point, with its handler,
  second. The block is read once after \<^verbatim>\<open>init_flann_parameters\<close>: nothing writes it
  between that point and line 192.
\<close>

definition flann_build_index_try ::
  "'x collaborators \<Rightarrow> pointer \<Rightarrow> int \<Rightarrow> int \<Rightarrow> pointer \<Rightarrow> pointer \<Rightarrow> (pointer, 'x) comp" where
  "flann_build_index_try env dataset rows cols speedup flann_params =
     (if flann_params = None
      then throw (FLANNException ''The index_params agument must be non-null'')
      else
        ebind (init_flann_parameters flann_params) (\<lambda>_.
        let inputData = Dataset rows cols dataset in
        ebind (read_params flann_params) (\<lambda>fp.
        let target_precision' = target_precision fp;
            build_weight' = build_weight fp;
            memory_weight' = memory_weight fp;
            sample_fraction' = sample_fraction fp
        in
        if target_precision' < 0 then
          (let params = parametersToParams fp in
           ebind (logger_info ''Building index'') (\<lambda>_.
           ebind (lift (to_cstr (params ''algorithm''))) (\<lambda>name.
           ebind (create_index env name inputData params) (\<lambda>index.
           ebind (buildIndex env index) (\<lambda>_.
           ebind (logger_info ''Building index took: %g'') (\<lambda>_.
           ereturn (Some index)))))))
        else if build_weight fp < 0
          then throw (FLANNException ''The index_params.build_weight must be positive.'')
        else if memory_weight fp < 0
          then throw (FLANNException ''The index_params.memory_weight must be positive.'')
        else
          ebind (new_Autotune (build_weight fp) (memory_weight fp) (sample_fraction fp)) (\<lambda>autotuner.
          ebind (estimateBuildIndexParams env autotuner inputData target_precision') (\<lambda>params.
          ebind (lift (to_cstr (params ''algorithm''))) (\<lambda>name.
          ebind (create_index env name inputData params) (\<lambda>index.
          ebind (buildIndex env index) (\<lambda>_.
          ebind (estimateSearchParams env autotuner index inputData target_precision' params) (\<lambda>params.
          ebind (lift (paramsToParameters (uninitialized env) params)) (\<lambda>p.
          ebind (write_params flann_params p) (\<lambda>_.
          ebind (modify_params flann_params (\<lambda>q. q\<lparr>target_precision := target_precision'\<rparr>)) (\<lambda>_.
          ebind (modify_params flann_params (\<lambda>q. q\<lparr>build_weight := build_weight'\<rparr>)) (\<lambda>_.
          ebind (modify_params flann_params (\<lambda>q. q\<lparr>memory_weight := memory_weight'\<rparr>)) (\<lambda>_.
          ebind (modify_params flann_params (\<lambda>q. q\<lparr>sample_fraction := sample_fraction'\<rparr>)) (\<lambda>_.
          ebind (if speedup \<noteq> None
                 then ebind (lift (to_float (params ''speedup''))) (\<lambda>v. write_float speedup 0 v)
                 else ereturn ()) (\<lambda>_.
          ereturn (Some index)))))))))))))))))"

definition flann_build_index ::
  "'x collaborators \<Rightarrow> pointer \<Rightarrow> int \<Rightarrow> int \<Rightarrow> pointer \<Rightarrow> pointer \<Rightarrow> (pointer, 'x) comp" where
  "flann_build_index env dataset rows cols speedup flann_params =
     try_catch_runtime_error
       (flann_build_index_try env dataset rows cols speedup flann_params)
       (caught None)"

subsection \<open>flann_find_nearest_neighbors\<close>

text \<open>
  This entry point dereferences \<^verbatim>\<open>flann_params\<close> without a test, and it has no check
  of the weights on its autotuning path. A dataset view is a value of the model, so
  \<^verbatim>\<open>delete inputData\<close> has nothing to do.
\<close>

definition flann_find_nearest_neighbors_try ::
  "'x collaborators \<Rightarrow> pointer \<Rightarrow> int \<Rightarrow> int \<Rightarrow> pointer \<Rightarrow> int \<Rightarrow> pointer \<Rightarrow> pointer \<Rightarrow> int \<Rightarrow> pointer
     \<Rightarrow> (int, 'x) comp" where
  "flann_find_nearest_neighbors_try env dataset rows cols testset tcount result dists nn flann_params =
     ebind (init_flann_parameters flann_params) (\<lambda>_.
     let inputData = Dataset rows cols dataset in
     ebind (read_params flann_params) (\<lambda>fp.
     let target_precision' = target_precision fp in
     ebind
       (if target_precision' < 0 then
          (let params = parametersToParams fp in
           ebind (logger_info ''Building index'') (\<lambda>_.
           ebind (lift (to_cstr (params ''algorithm''))) (\<lambda>name.
           ebind (create_index env name inputData params) (\<lambda>index.
           ebind (buildIndex env index) (\<lambda>_.
           ebind (logger_info ''Building index took: %g'') (\<lambda>_.
           ereturn index))))))
        else
          ebind (logger_info ''Build index: %g'') (\<lambda>_.
          ebind (new_Autotune (build_weight fp) (memory_weight fp) (sample_fraction fp)) (\<lambda>autotuner.
          ebind (estimateBuildIndexParams env autotuner inputData target_precision') (\<lambda>params.
          ebind (lift (to_cstr (params ''algorithm''))) (\<lambda>name.
          ebind (create_index env name inputData params) (\<lambda>index.
          ebind (buildIndex env index) (\<lambda>_.
          ebind (estimateSearchParams env autotuner index inputData target_precision' params) (\<lambda>params.
          ebind (lift (paramsToParameters (uninitialized env) params)) (\<lambda>p.
          ebind (write_params flann_params p) (\<lambda>_.
          ereturn index))))))))))
       (\<lambda>index.
     ebind (logger_info ''Finished creating the index.'') (\<lambda>_.
     ebind (logger_info ''Searching for nearest neighbors.'') (\<lambda>_.
     ebind (read_params flann_params) (\<lambda>fp2.
     let searchParams = Map.empty(''checks'' \<mapsto> VInt (checks fp2));
         result_set = Dataset tcount nn result;
         dists_set = Dataset tcount nn dists
     in
     ebind (search_for_neighbors env index (Dataset tcount cols testset) result_set dists_set searchParams) (\<lambda>_.
     ebind (delete env index) (\<lambda>_.
     ereturn 0))))))))"

definition flann_find_nearest_neighbors ::
  "'x collaborators \<Rightarrow> pointer \<Rightarrow> int \<Rightarrow> int \<Rightarrow> pointer \<Rightarrow> int \<Rightarrow> pointer \<Rightarrow> pointer \<Rightarrow> int \<Rightarrow> pointer
     \<Rightarrow> (int, 'x) comp" where
  "flann_find_nearest_neighbors env dataset rows cols testset tcount result dists nn flann_params =
     try_catch_runtime_error
       (flann_find_nearest_neighbors_try env dataset rows cols testset tcount result dists nn flann_params)
       (caught (-1))"

subsection \<open>flann_find_nearest_neighbors_index\<close>

definition flann_find_nearest_neighbors_index_try ::
  "'x collaborators \<Rightarrow> pointer \<Rightarrow> pointer \<Rightarrow> int \<Rightarrow> pointer \<Rightarrow> pointer \<Rightarrow> int \<Rightarrow> int \<Rightarrow> pointer
     \<Rightarrow> (int, 'x) comp" where
  "flann_find_nearest_neighbors_index_try env index_ptr testset tcount result dists nn checks' flann_params =
     ebind (init_flann_parameters flann_params) (\<lambda>_.
     case index_ptr of
       None \<Rightarrow> throw (FLANNException ''Invalid index'')
     | Some index \<Rightarrow>
         ebind (veclen env index) (\<lambda>length'.
         let searchParams = Map.empty(''checks'' \<mapsto> VInt checks');
             result_set = Dataset tcount nn result;
             dists_set = Dataset tcount nn dists
         in
         ebind (search_for_neighbors env index (Dataset tcount length' testset) result_set dists_set searchParams) (\<lambda>_.
         ebind (logger_info ''Searching took %g seconds'') (\<lambda>_.
         ereturn 0))))"

definition flann_find_nearest_neighbors_index ::
  "'x collaborators \<Rightarrow> pointer \<Rightarrow> pointer \<Rightarrow> int \<Rightarrow> pointer \<Rightarrow> pointer \<Rightarrow> int \<Rightarrow> int \<Rightarrow> pointer
     \<Rightarrow> (int, 'x) comp" where
  "flann_find_nearest_neighbors_index env index_ptr testset tcount result dists nn checks' flann_params =
     try_catch_runtime_error
       (flann_find_nearest_neighbors_index_try env index_ptr testset tcount result dists nn checks' flann_params)
       (caught (-1))"

subsection \<open>flann_radius_search\<close>

text \<open>
  The copying loop of lines 321 to 324. Its bound is \<^verbatim>\<open>count_nn\<close>, the size of the result
  set; the parameter \<^verbatim>\<open>max_nn\<close> of the entry point does not occur in it.
\<close>

function copy_loop ::
  "int \<Rightarrow> int \<Rightarrow> int list \<Rightarrow> real list \<Rightarrow> pointer \<Rightarrow> pointer \<Rightarrow> (unit, 'x) comp" where
  "copy_loop i count_nn neighbors distances indices dists w =
     (if i < count_nn then
        (case write_int indices i (neighbors ! nat i) w of
           (Inl e, w1) \<Rightarrow> (Inl e, w1)
         | (Inr u, w1) \<Rightarrow>
             (case write_float dists i (distances ! nat i) w1 of
                (Inl e, w2) \<Rightarrow> (Inl e, w2)
              | (Inr u, w2) \<Rightarrow> copy_loop (i + 1) count_nn neighbors distances indices dists w2))
      else (Inr (), w))"
  by pat_completeness auto
termination
  by (relation "measure (\<lambda>(i, count_nn, neighbors, distances, indices, dists, w). nat (count_nn - i))") auto

definition flann_radius_search_try ::
  "'x collaborators \<Rightarrow> pointer \<Rightarrow> pointer \<Rightarrow> pointer \<Rightarrow> pointer \<Rightarrow> int \<Rightarrow> real \<Rightarrow> int \<Rightarrow> pointer
     \<Rightarrow> (int, 'x) comp" where
  "flann_radius_search_try env index_ptr query indices dists max_nn radius checks' flann_params =
     ebind (init_flann_parameters flann_params) (\<lambda>_.
     case index_ptr of
       None \<Rightarrow> throw (FLANNException ''Invalid index'')
     | Some index \<Rightarrow>
         ebind (veclen env index) (\<lambda>length'.
         let searchParams = Map.empty(''checks'' \<mapsto> VInt checks') in
         ebind (veclen env index) (\<lambda>len.
         ebind (findNeighbors env index radius query len searchParams) (\<lambda>resultSet.
         let neighbors = map fst resultSet;
             distances = map snd resultSet;
             count_nn = int (length resultSet)
         in
         ebind (copy_loop 0 count_nn neighbors distances indices dists) (\<lambda>_.
         ereturn count_nn)))))"

definition flann_radius_search ::
  "'x collaborators \<Rightarrow> pointer \<Rightarrow> pointer \<Rightarrow> pointer \<Rightarrow> pointer \<Rightarrow> int \<Rightarrow> real \<Rightarrow> int \<Rightarrow> pointer
     \<Rightarrow> (int, 'x) comp" where
  "flann_radius_search env index_ptr query indices dists max_nn radius checks' flann_params =
     try_catch_runtime_error
       (flann_radius_search_try env index_ptr query indices dists max_nn radius checks' flann_params)
       (caught (-1))"

subsection \<open>flann_free_index\<close>

definition flann_free_index_try :: "'x collaborators \<Rightarrow> pointer \<Rightarrow> pointer \<Rightarrow> (int, 'x) comp" where
  "flann_free_index_try env index_ptr flann_params =
     ebind (init_flann_parameters flann_params) (\<lambda>_.
     case index_ptr of
       None \<Rightarrow> throw (FLANNException ''Invalid index'')
     | Some index \<Rightarrow> ebind (delete env index) (\<lambda>_. ereturn 0))"

definition flann_free_index :: "'x collaborators \<Rightarrow> pointer \<Rightarrow> pointer \<Rightarrow> (int, 'x) comp" where
  "flann_free_index env index_ptr flann_params =
     try_catch_runtime_error (flann_free_index_try env index_ptr flann_params) (caught (-1))"

subsection \<open>flann_compute_cluster_centers\<close>

definition flann_compute_cluster_centers_try ::
  "'x collaborators \<Rightarrow> pointer \<Rightarrow> int \<Rightarrow> int \<Rightarrow> int \<Rightarrow> pointer \<Rightarrow> pointer \<Rightarrow> (int, 'x) comp" where
  "flann_compute_cluster_centers_try env dataset rows cols clusters result flann_params =
     ebind (init_flann_parameters flann_params) (\<lambda>_.
     let inputData = Dataset rows cols dataset in
     ebind (read_params flann_params) (\<lambda>fp.
     let params = parametersToParams fp in
     ebind (new_KMeansTree env inputData params) (\<lambda>kmeans.
     with_object env kmeans
       (ebind (buildIndex env kmeans) (\<lambda>_.
        ebind (getClusterCenters env kmeans clusters result) (\<lambda>clusterNum.
        ereturn clusterNum))))))"

definition flann_compute_cluster_centers ::
  "'x collaborators \<Rightarrow> pointer \<Rightarrow> int \<Rightarrow> int \<Rightarrow> int \<Rightarrow> pointer \<Rightarrow> pointer \<Rightarrow> (int, 'x) comp" where
  "flann_compute_cluster_centers env dataset rows cols clusters result flann_params =
     try_catch_runtime_error
       (flann_compute_cluster_centers_try env dataset rows cols clusters result flann_params)
       (caught (-1))"

subsection \<open>Reading the record of calls\<close>

fun is_autotuner_call :: "call \<Rightarrow> bool" where
  "is_autotuner_call (Call_Autotune bw mw sf) = True"
| "is_autotuner_call (Call_estimateBuildIndexParams a d t) = True"
| "is_autotuner_call (Call_estimateSearchParams a h d t ps) = True"
| "is_autotuner_call c = False"

definition new_calls :: "'x world \<Rightarrow> 'x world \<Rightarrow> call list" where
  \<comment> \<open>the calls made between an earlier state and a later one\<close>
  "new_calls w w' = drop (length (calls w)) (calls w')"

definition autotuner_invoked :: "'x world \<Rightarrow> 'x world \<Rightarrow> bool" where
  "autotuner_invoked w w' = list_ex is_autotuner_call (new_calls w w')"

definition valid_params_ptr :: "'x world \<Rightarrow> pointer \<Rightarrow> bool" where
  \<comment> \<open>what a caller owes for \<^verbatim>\<open>flann_params\<close>: null, or the address of a block\<close>
  "valid_params_ptr w p = (case p of None \<Rightarrow> True | Some a \<Rightarrow> params_mem w a \<noteq> None)"

subsection \<open>A small configuration to run the model on\<close>

text \<open>
  The collaborators of the test configuration do as little as their interfaces allow:
  the factory hands out the next free address, the search reports the points of a fixed
  list that lie within the radius, and the autotuner proposes a forest of four k-d trees.
\<close>

definition test_points :: "(int \<times> real) list" where
  "test_points = [(4, 0), (5, 1), (6, 1), (7, 4)]"

definition test_tuned :: Params where
  "test_tuned = [''algorithm'' \<mapsto> VString (CStr 40 ''kdtree''), ''trees'' \<mapsto> VInt 4]"

definition test_params :: FLANNParameters where
  "test_params =
     \<lparr>log_level = 1, log_destination = None, random_seed = 0, algorithm = 1, checks = 32,
      cb_index = 0.4, trees = 4, branching = 32, iterations = 11, centers_init = 0,
      target_precision = - 1, build_weight = 0.01, memory_weight = 0, sample_fraction = 0.1\<rparr>"

definition test_env :: "nat collaborators" where
  "test_env =
     \<lparr>ext_create_index = (\<lambda>name inputData params x. (Inr (Suc x), Suc x)),
      ext_buildIndex = (\<lambda>index x. (Inr (), x)),
      ext_veclen = (\<lambda>index x. (Inr 2, x)),
      ext_findNeighbors = (\<lambda>index radius query len searchParams x.
                             (Inr (filter (\<lambda>(i, d). d \<le> radius) test_points), x)),
      ext_search_for_neighbors = (\<lambda>index testset result_set dists_set searchParams x. (Inr (), x)),
      ext_estimateBuildIndexParams = (\<lambda>autotuner inputData precision x. (Inr test_tuned, x)),
      ext_estimateSearchParams = (\<lambda>autotuner index inputData precision params x.
                                    (Inr (params(''checks'' \<mapsto> VInt 64, ''speedup'' \<mapsto> VFloat 2)), x)),
      ext_KMeansTree = (\<lambda>inputData params x. (Inl (RuntimeError ''Branching factor must be at least 2''), x)),
      ext_getClusterCenters = (\<lambda>kmeans clusters result x. (Inr clusters, x)),
      ext_delete = (\<lambda>index x. x),
      uninitialized = test_params\<lparr>log_level := 7, random_seed := 7\<rparr>\<rparr>"

definition test_world :: "nat world" where
  \<comment> \<open>one parameter block at address 0, one \<^verbatim>\<open>float\<close> at address 0 for the speedup; two
      \<^verbatim>\<open>int\<close> cells at 20 and 21 and two \<^verbatim>\<open>float\<close> cells at 10 and 11 as output arrays
      for a radius search with \<^verbatim>\<open>max_nn = 2\<close>, each followed by a cell that belongs to
      something else; one live index at address 1\<close>
  "test_world =
     \<lparr>logger_level = 0, logger_destination = None, logged = [], seeds = [], calls = [],
      live = {1},
      params_mem = [0 \<mapsto> test_params],
      float_mem = [0 \<mapsto> 0, 10 \<mapsto> 0, 11 \<mapsto> 0, 12 \<mapsto> 99],
      int_mem = [20 \<mapsto> 0, 21 \<mapsto> 0, 22 \<mapsto> 99],
      ext = 1\<rparr>"

definition test_world_with :: "FLANNParameters \<Rightarrow> nat world" where
  \<comment> \<open>the same, with another parameter block at address 0\<close>
  "test_world_with p = test_world\<lparr>params_mem := [0 \<mapsto> p]\<rparr>"

definition test_sparse :: Params where
  \<comment> \<open>a map that has the algorithm and nothing else\<close>
  "test_sparse = [''algorithm'' \<mapsto> VString (CStr 0 ''linear'')]"

subsection \<open>What a computation adds to the record of calls\<close>

definition appends :: "(call \<Rightarrow> bool) \<Rightarrow> ('a, 'x) comp \<Rightarrow> bool" where
  \<comment> \<open>whatever the computation does, it only adds calls that satisfy \<open>P\<close> to the record\<close>
  "appends P m = (\<forall>w r w'. m w = (r, w') \<longrightarrow> (\<exists>cs. calls w' = calls w @ cs \<and> list_all P cs))"

section \<open>Properties\<close>

subsection \<open>The converters\<close>

lemmas conv_defs = illegal_conversion_def FLANNException_def ptr_eq_def ARRAY_LEN_def
  algos_def centers_algos_def random_literal_def CENTERS_RANDOM_def LINEAR_def

lemma small_int_cases5: "0 \<le> (k::int) \<Longrightarrow> k < 5 \<Longrightarrow> k = 0 \<or> k = 1 \<or> k = 2 \<or> k = 3 \<or> k = 4"
  by arith

lemma small_int_cases3: "0 \<le> (k::int) \<Longrightarrow> k < 3 \<Longrightarrow> k = 0 \<or> k = 1 \<or> k = 2"
  by arith

lemma centers_roundtrip:
  assumes "0 \<le> centers_init p" "centers_init p < ARRAY_LEN centers_algos"
  shows "centers_init_loop 0 centers_algos (parametersToParams p) c = centers_init p"
proof -
  from assms have "centers_init p = 0 \<or> centers_init p = 1 \<or> centers_init p = 2"
    by (simp add: ARRAY_LEN_def centers_algos_def small_int_cases3)
  then show ?thesis
    by (elim disjE) (simp_all add: parametersToParams_def Let_def conv_defs)
qed

lemma algorithm_roundtrip:
  assumes "0 \<le> algorithm p" "algorithm p < ARRAY_LEN algos"
  shows "algorithm_loop 0 algos (parametersToParams p) a = Inr (algorithm p)"
proof -
  from assms have "algorithm p = 0 \<or> algorithm p = 1 \<or> algorithm p = 2 \<or> algorithm p = 3 \<or> algorithm p = 4"
    by (simp add: ARRAY_LEN_def algos_def small_int_cases5)
  then show ?thesis
    by (elim disjE) (simp_all add: parametersToParams_def Let_def conv_defs)
qed

lemma parametersToParams_lookups:
  "to_int (parametersToParams p ''checks'') = Inr (checks p)"
  "to_float (parametersToParams p ''cb_index'') = Inr (cb_index p)"
  "to_int (parametersToParams p ''trees'') = Inr (trees p)"
  "to_int (parametersToParams p ''max-iterations'') = Inr (iterations p)"
  "to_int (parametersToParams p ''branching'') = Inr (branching p)"
  "to_float (parametersToParams p ''target-precision'') = Inr (target_precision p)"
  by (simp_all add: parametersToParams_def Let_def)

text \<open>
  Claim C3. A parameter block whose \<open>algorithm\<close> is a valid index into the five names of
  \<open>algos\<close> and whose \<open>centers_init\<close> is a valid index into the three names of
  \<open>centers_algos\<close> survives the way through \<open>parametersToParams\<close> and back through
  \<open>paramsToParameters\<close>: the second conversion returns, and \<open>checks\<close>, \<open>cb_index\<close>,
  \<open>trees\<close>, \<open>iterations\<close>, \<open>branching\<close>, \<open>target_precision\<close>, \<open>centers_init\<close> and
  \<open>algorithm\<close> are the ones of the block that went in. The comparison of names is the
  comparison of pointers; it succeeds because both conversions use the same two tables.
\<close>

theorem params_roundtrip:
  assumes "0 \<le> algorithm p" "algorithm p < ARRAY_LEN algos"
    and "0 \<le> centers_init p" "centers_init p < ARRAY_LEN centers_algos"
  shows "\<exists>q. paramsToParameters p0 (parametersToParams p) = Inr q
             \<and> checks q = checks p \<and> cb_index q = cb_index p \<and> trees q = trees p
             \<and> iterations q = iterations p \<and> branching q = branching p
             \<and> target_precision q = target_precision p
             \<and> centers_init q = centers_init p \<and> algorithm q = algorithm p"
  using assms
  by (simp add: paramsToParameters_def Let_def parametersToParams_lookups
      centers_roundtrip algorithm_roundtrip)

theorem params_roundtrip_witness:
  "\<exists>q. paramsToParameters test_params
          (parametersToParams (test_params\<lparr>algorithm := 2, centers_init := 1\<rparr>)) = Inr q
       \<and> checks q = 32 \<and> cb_index q = 0.4 \<and> trees q = 4 \<and> iterations q = 11 \<and> branching q = 32
       \<and> target_precision q = - 1 \<and> centers_init q = 1 \<and> algorithm q = 2"
  using params_roundtrip [of "test_params\<lparr>algorithm := 2, centers_init := 1\<rparr>" test_params]
  by (simp add: test_params_def ARRAY_LEN_def algos_def centers_algos_def)

lemma algorithm_loop_returns:
  "params ''algorithm'' = Some (VString s) \<Longrightarrow> \<exists>k. algorithm_loop i xs params a = Inr k"
  by (induction xs arbitrary: i) simp_all

lemma centers_init_loop_missing:
  "params ''centers-init'' = None \<Longrightarrow> centers_init_loop i xs params c = c"
  by (induction xs arbitrary: i) (simp_all add: illegal_conversion_def)

text \<open>
  Claim C4, as the code has it. The claim gives 32, 4 and 11 for a missing \<open>checks\<close>,
  \<open>trees\<close> and \<open>max-iterations\<close>; the handlers of the source assign \<open>-1\<close> to all three.
  What holds: for every map that has a string under \<open>algorithm\<close> (without one the function
  raises), \<open>paramsToParameters\<close> returns a block in which a missing \<open>checks\<close>, \<open>trees\<close>
  or \<open>max-iterations\<close> is \<open>-1\<close>, a missing \<open>cb_index\<close> is 0.4 and a missing
  \<open>centers-init\<close> is \<open>CENTERS_RANDOM\<close>.
\<close>

theorem paramsToParameters_missing_keys:
  assumes "params ''algorithm'' = Some (VString s)"
  shows "\<exists>q. paramsToParameters p0 params = Inr q
           \<and> (params ''checks'' = None \<longrightarrow> checks q = - 1)
           \<and> (params ''cb_index'' = None \<longrightarrow> cb_index q = 0.4)
           \<and> (params ''trees'' = None \<longrightarrow> trees q = - 1)
           \<and> (params ''max-iterations'' = None \<longrightarrow> iterations q = - 1)
           \<and> (params ''centers-init'' = None \<longrightarrow> centers_init q = CENTERS_RANDOM)"
proof -
  from assms have "\<exists>k. algorithm_loop 0 algos params LINEAR = Inr k"
    by (rule algorithm_loop_returns)
  then obtain k where k: "algorithm_loop 0 algos params LINEAR = Inr k" ..
  then show ?thesis
    by (simp add: paramsToParameters_def Let_def centers_init_loop_missing illegal_conversion_def)
qed

lemmas test_defs = test_env_def test_world_def test_params_def test_tuned_def test_points_def
  test_world_with_def test_sparse_def

theorem paramsToParameters_missing_keys_witness:
  "test_sparse ''algorithm'' = Some (VString (CStr 0 ''linear''))
   \<and> test_sparse ''checks'' = None \<and> test_sparse ''cb_index'' = None
   \<and> test_sparse ''trees'' = None \<and> test_sparse ''max-iterations'' = None
   \<and> test_sparse ''centers-init'' = None
   \<and> (\<exists>q. paramsToParameters test_params test_sparse = Inr q
          \<and> checks q = - 1 \<and> cb_index q = 0.4 \<and> trees q = - 1 \<and> iterations q = - 1
          \<and> centers_init q = CENTERS_RANDOM)"
proof -
  have h: "test_sparse ''algorithm'' = Some (VString (CStr 0 ''linear''))"
    by (simp add: test_sparse_def)
  have k: "test_sparse ''checks'' = None \<and> test_sparse ''cb_index'' = None
     \<and> test_sparse ''trees'' = None \<and> test_sparse ''max-iterations'' = None
     \<and> test_sparse ''centers-init'' = None"
    by (simp add: test_sparse_def)
  from paramsToParameters_missing_keys [where params = test_sparse and ?p0.0 = test_params, OF h] h k show ?thesis by simp
qed

text \<open>
  The claim as it was stated fails on the map that has the algorithm and nothing else:
  the function returns, and \<open>checks\<close>, \<open>trees\<close> and \<open>iterations\<close> are \<open>-1\<close>.
\<close>

theorem paramsToParameters_missing_keys_counterexample:
  "test_sparse ''checks'' = None \<and> test_sparse ''trees'' = None
   \<and> test_sparse ''max-iterations'' = None
   \<and> \<not> isl (paramsToParameters test_params test_sparse)
   \<and> checks (projr (paramsToParameters test_params test_sparse)) = - 1
   \<and> checks (projr (paramsToParameters test_params test_sparse)) \<noteq> 32
   \<and> trees (projr (paramsToParameters test_params test_sparse)) \<noteq> 4
   \<and> iterations (projr (paramsToParameters test_params test_sparse)) \<noteq> 11"
  by (simp add: test_sparse_def paramsToParameters_def Let_def conv_defs)

text \<open>
  Claim C10. When \<open>centers_init\<close> is outside the range of the three-entry table,
  \<open>parametersToParams\<close> stores the string "random" under \<open>centers-init\<close>; when
  \<open>algorithm\<close> is outside the range of the five-entry table, the produced map has no
  \<open>algorithm\<close> key.
\<close>

theorem parametersToParams_out_of_range:
  "(centers_init p < 0 \<or> ARRAY_LEN centers_algos \<le> centers_init p
      \<longrightarrow> parametersToParams p ''centers-init'' = Some (VString random_literal)
          \<and> chars random_literal = ''random'')
   \<and> (algorithm p < 0 \<or> ARRAY_LEN algos \<le> algorithm p
      \<longrightarrow> parametersToParams p ''algorithm'' = None)"
  by (auto simp add: parametersToParams_def Let_def random_literal_def)

theorem parametersToParams_out_of_range_witness:
  "centers_init (test_params\<lparr>centers_init := 3, algorithm := 5\<rparr>) \<ge> ARRAY_LEN centers_algos
   \<and> algorithm (test_params\<lparr>centers_init := 3, algorithm := 5\<rparr>) \<ge> ARRAY_LEN algos
   \<and> parametersToParams (test_params\<lparr>centers_init := 3, algorithm := 5\<rparr>) ''centers-init''
       = Some (VString random_literal)
   \<and> chars random_literal = ''random''
   \<and> parametersToParams (test_params\<lparr>centers_init := 3, algorithm := 5\<rparr>) ''algorithm'' = None"
  using parametersToParams_out_of_range [of "test_params\<lparr>centers_init := 3, algorithm := 5\<rparr>"]
  by (simp add: ARRAY_LEN_def algos_def centers_algos_def)

subsection \<open>Initialisation of the process-wide settings\<close>

lemmas comp_defs = ereturn_def throw_def ebind_def lift_def try_catch_runtime_error_def caught_def
  logger_info_def logger_error_def seed_random_def flann_log_verbosity_def flann_log_destination_def
  read_params_def write_params_def write_float_def write_int_def modify_params_def
  call_ext_def on_live_def new_object_def delete_def with_object_def new_Autotune_def

lemmas ext_defs = create_index_def buildIndex_def veclen_def findNeighbors_def search_for_neighbors_def
  estimateBuildIndexParams_def estimateSearchParams_def new_KMeansTree_def getClusterCenters_def

lemmas entry_defs = flann_build_index_def flann_build_index_try_def
  flann_find_nearest_neighbors_def flann_find_nearest_neighbors_try_def
  flann_find_nearest_neighbors_index_def flann_find_nearest_neighbors_index_try_def
  flann_radius_search_def flann_radius_search_try_def
  flann_free_index_def flann_free_index_try_def
  flann_compute_cluster_centers_def flann_compute_cluster_centers_try_def
  init_flann_parameters_def

lemmas eval_defs = entry_defs comp_defs ext_defs test_defs conv_defs paramsToParameters_def
  parametersToParams_def Let_def

lemma init_flann_parameters_valid:
  assumes "params_mem w a = Some p"
  shows "init_flann_parameters (Some a) w =
           (Inr (), w\<lparr>logger_level := (if 0 \<le> log_level p then log_level p else logger_level w),
                      logger_destination := log_destination p,
                      seeds := (if 0 < random_seed p then seeds w @ [random_seed p] else seeds w)\<rparr>)"
  using assms by (simp add: init_flann_parameters_def comp_defs)

lemma init_flann_parameters_null: "init_flann_parameters None w = (Inr (), w)"
  by (simp add: init_flann_parameters_def comp_defs)

text \<open>
  Claim C8. For every parameter block passed to \<open>init_flann_parameters\<close>, the function
  returns, and the generator is seeded again, with \<open>random_seed\<close>, exactly when
  \<open>random_seed\<close> is strictly positive; with a seed that is zero or negative the seeds the
  generator has received are the ones it had before.
\<close>

theorem init_flann_parameters_seed:
  assumes "params_mem w a = Some p"
  shows "\<exists>w'. init_flann_parameters (Some a) w = (Inr (), w')
            \<and> (0 < random_seed p \<longrightarrow> seeds w' = seeds w @ [random_seed p])
            \<and> (random_seed p \<le> 0 \<longrightarrow> seeds w' = seeds w)"
  using assms by (simp add: init_flann_parameters_valid)

theorem init_flann_parameters_seed_witness:
  "params_mem (test_world_with (test_params\<lparr>random_seed := 42\<rparr>)) 0
      = Some (test_params\<lparr>random_seed := 42\<rparr>)
   \<and> seeds (snd (init_flann_parameters (Some 0) (test_world_with (test_params\<lparr>random_seed := 42\<rparr>))))
      = [42]
   \<and> params_mem test_world 0 = Some test_params
   \<and> seeds (snd (init_flann_parameters (Some 0) test_world)) = []"
proof -
  have h1: "params_mem (test_world_with (test_params\<lparr>random_seed := 42\<rparr>)) 0
      = Some (test_params\<lparr>random_seed := 42\<rparr>)"
    by (simp add: test_defs)
  have h2: "params_mem test_world 0 = Some test_params"
    by (simp add: test_defs)
  from init_flann_parameters_seed [OF h1] have
    "seeds (snd (init_flann_parameters (Some 0) (test_world_with (test_params\<lparr>random_seed := 42\<rparr>))))
      = seeds (test_world_with (test_params\<lparr>random_seed := 42\<rparr>)) @ [42]"
    by auto
  moreover from init_flann_parameters_seed [OF h2] have
    "seeds (snd (init_flann_parameters (Some 0) test_world)) = seeds test_world"
    by (auto simp add: test_params_def)
  ultimately show ?thesis using h1 h2 by (simp add: test_defs)
qed

lemma init_flann_parameters_returns:
  assumes "valid_params_ptr w p"
  shows "\<exists>w1. init_flann_parameters p w = (Inr (), w1) \<and> live w1 = live w \<and> params_mem w1 = params_mem w
     \<and> calls w1 = calls w"
proof (cases p)
  case None
  then show ?thesis by (simp add: init_flann_parameters_null)
next
  case (Some a)
  with assms obtain fp where "params_mem w a = Some fp"
    by (auto simp add: valid_params_ptr_def)
  with Some show ?thesis by (simp add: init_flann_parameters_valid)
qed

lemma init_flann_parameters_frame:
  assumes "params_mem w a = Some fp"
  shows "\<exists>w1. init_flann_parameters (Some a) w = (Inr (), w1) \<and> params_mem w1 = params_mem w
     \<and> calls w1 = calls w \<and> live w1 = live w"
  using assms by (simp add: init_flann_parameters_valid)

subsection \<open>Null and live index handles\<close>

text \<open>
  Claim C6. With a null index handle, and a \<open>flann_params\<close> that is null or the address
  of a block, \<open>flann_find_nearest_neighbors_index\<close>, \<open>flann_radius_search\<close> and
  \<open>flann_free_index\<close> each run \<open>init_flann_parameters\<close>, raise the invalid-index
  exception, catch it, log it and return \<open>-1\<close>. With a live handle \<open>flann_free_index\<close>
  returns 0, and the handle is no longer live.
\<close>

theorem null_index_handle:
  assumes "valid_params_ptr w flann_params"
  shows "\<exists>w1. init_flann_parameters flann_params w = (Inr (), w1)
     \<and> flann_find_nearest_neighbors_index env None testset tcount result dists nn checks' flann_params w
         = (Inr (- 1), w1\<lparr>logged := logged w1 @ [Error ''Caught exception: Invalid index'']\<rparr>)
     \<and> flann_radius_search env None query indices dists' max_nn radius checks'' flann_params w
         = (Inr (- 1), w1\<lparr>logged := logged w1 @ [Error ''Caught exception: Invalid index'']\<rparr>)
     \<and> flann_free_index env None flann_params w
         = (Inr (- 1), w1\<lparr>logged := logged w1 @ [Error ''Caught exception: Invalid index'']\<rparr>)
     \<and> (index \<in> live w \<longrightarrow>
          fst (flann_free_index env (Some index) flann_params w) = Inr 0
          \<and> index \<notin> live (snd (flann_free_index env (Some index) flann_params w)))"
proof -
  from init_flann_parameters_returns [OF assms] obtain w1 where
    w1: "init_flann_parameters flann_params w = (Inr (), w1)" "live w1 = live w" by blast
  then show ?thesis
    by (simp add: flann_find_nearest_neighbors_index_def flann_find_nearest_neighbors_index_try_def
        flann_radius_search_def flann_radius_search_try_def
        flann_free_index_def flann_free_index_try_def
        ebind_def throw_def FLANNException_def try_catch_runtime_error_def caught_def
        logger_error_def ereturn_def delete_def on_live_def)
qed

theorem null_index_handle_witness:
  "valid_params_ptr test_world None \<and> 1 \<in> live test_world
   \<and> flann_find_nearest_neighbors_index test_env None None 1 None None 1 32 None test_world
       = (Inr (- 1), test_world\<lparr>logged := [Error ''Caught exception: Invalid index'']\<rparr>)
   \<and> flann_radius_search test_env None None (Some 20) (Some 10) 2 1 32 None test_world
       = (Inr (- 1), test_world\<lparr>logged := [Error ''Caught exception: Invalid index'']\<rparr>)
   \<and> flann_free_index test_env None None test_world
       = (Inr (- 1), test_world\<lparr>logged := [Error ''Caught exception: Invalid index'']\<rparr>)
   \<and> fst (flann_free_index test_env (Some 1) None test_world) = Inr 0
   \<and> 1 \<notin> live (snd (flann_free_index test_env (Some 1) None test_world))"
proof -
  have h: "valid_params_ptr test_world None" by (simp add: valid_params_ptr_def)
  have l: "1 \<in> live test_world" "logged test_world = []" by (simp_all add: test_world_def)
  from null_index_handle [OF h, of test_env None 1 None None 1 32 None "Some 20" "Some 10" 2 1 32 1] h l
  show ?thesis by (simp add: init_flann_parameters_null)
qed

subsection \<open>The exception handlers\<close>

text \<open>
  Claim C7. \<open>flann_build_index\<close> with a null \<open>flann_params\<close> returns the null handle
  (and logs why). For each entry point with a handler: when the body of its \<open>try\<close> block
  raises a runtime error, the entry point appends \<open>Caught exception:\<close> and the message to
  the log of the state in which the error was raised, and returns its sentinel, the null
  handle for \<open>flann_build_index\<close> and \<open>-1\<close> for the five entry points that return an
  \<open>int\<close>.
\<close>

theorem caught_failures:
  "flann_build_index env dataset rows cols speedup None w
     = (Inr None, w\<lparr>logged := logged w @
          [Error ''Caught exception: The index_params agument must be non-null'']\<rparr>)
   \<and> (flann_build_index_try env dataset rows cols speedup flann_params w = (Inl (RuntimeError what), w')
        \<longrightarrow> flann_build_index env dataset rows cols speedup flann_params w
            = (Inr None, w'\<lparr>logged := logged w' @ [Error (''Caught exception: '' @ what)]\<rparr>))
   \<and> (flann_find_nearest_neighbors_try env dataset rows cols testset tcount result dists nn flann_params w
          = (Inl (RuntimeError what), w')
        \<longrightarrow> flann_find_nearest_neighbors env dataset rows cols testset tcount result dists nn flann_params w
            = (Inr (- 1), w'\<lparr>logged := logged w' @ [Error (''Caught exception: '' @ what)]\<rparr>))
   \<and> (flann_find_nearest_neighbors_index_try env index_ptr testset tcount result dists nn checks' flann_params w
          = (Inl (RuntimeError what), w')
        \<longrightarrow> flann_find_nearest_neighbors_index env index_ptr testset tcount result dists nn checks' flann_params w
            = (Inr (- 1), w'\<lparr>logged := logged w' @ [Error (''Caught exception: '' @ what)]\<rparr>))
   \<and> (flann_radius_search_try env index_ptr query indices dists max_nn radius checks' flann_params w
          = (Inl (RuntimeError what), w')
        \<longrightarrow> flann_radius_search env index_ptr query indices dists max_nn radius checks' flann_params w
            = (Inr (- 1), w'\<lparr>logged := logged w' @ [Error (''Caught exception: '' @ what)]\<rparr>))
   \<and> (flann_free_index_try env index_ptr flann_params w = (Inl (RuntimeError what), w')
        \<longrightarrow> flann_free_index env index_ptr flann_params w
            = (Inr (- 1), w'\<lparr>logged := logged w' @ [Error (''Caught exception: '' @ what)]\<rparr>))
   \<and> (flann_compute_cluster_centers_try env dataset rows cols clusters result flann_params w
          = (Inl (RuntimeError what), w')
        \<longrightarrow> flann_compute_cluster_centers env dataset rows cols clusters result flann_params w
            = (Inr (- 1), w'\<lparr>logged := logged w' @ [Error (''Caught exception: '' @ what)]\<rparr>))"
  by (simp add: flann_build_index_def flann_build_index_try_def flann_find_nearest_neighbors_def
      flann_find_nearest_neighbors_index_def flann_radius_search_def flann_free_index_def
      flann_compute_cluster_centers_def
      try_catch_runtime_error_def caught_def ebind_def logger_error_def ereturn_def throw_def
      FLANNException_def)

theorem caught_failures_witness:
  "fst (flann_build_index test_env None 100 8 None None test_world) = Inr None
   \<and> fst (flann_build_index test_env None 100 8 None (Some 0)
            (test_world_with (test_params\<lparr>algorithm := 9\<rparr>))) = Inr None
   \<and> last (logged (snd (flann_build_index test_env None 100 8 None (Some 0)
            (test_world_with (test_params\<lparr>algorithm := 9\<rparr>)))))
       = Error ''Caught exception: Variant: illegal conversion''
   \<and> fst (flann_find_nearest_neighbors test_env None 100 8 None 1 None None 1 (Some 0)
            (test_world_with (test_params\<lparr>algorithm := 9\<rparr>))) = Inr (- 1)
   \<and> fst (flann_find_nearest_neighbors_index test_env None None 1 None None 1 32 None test_world)
       = Inr (- 1)
   \<and> fst (flann_radius_search test_env None None (Some 20) (Some 10) 2 1 32 None test_world) = Inr (- 1)
   \<and> fst (flann_free_index test_env None None test_world) = Inr (- 1)
   \<and> fst (flann_compute_cluster_centers test_env None 100 8 2 None (Some 0) test_world) = Inr (- 1)
   \<and> last (logged (snd (flann_compute_cluster_centers test_env None 100 8 2 None (Some 0) test_world)))
       = Error ''Caught exception: Branching factor must be at least 2''"
proof -
  let ?w9 = "test_world_with (test_params\<lparr>algorithm := 9\<rparr>)"
  let ?b = "flann_build_index_try test_env None 100 8 None (Some 0) ?w9"
  let ?n = "flann_find_nearest_neighbors_try test_env None 100 8 None 1 None None 1 (Some 0) ?w9"
  let ?i = "flann_find_nearest_neighbors_index_try test_env None None 1 None None 1 32 None test_world"
  let ?r = "flann_radius_search_try test_env None None (Some 20) (Some 10) 2 1 32 None test_world"
  let ?f = "flann_free_index_try test_env None None test_world"
  let ?c = "flann_compute_cluster_centers_try test_env None 100 8 2 None (Some 0) test_world"
  have b: "?b = (Inl (RuntimeError ''Variant: illegal conversion''), snd ?b)"
    by (simp add: prod_eq_iff eval_defs)
  have n: "?n = (Inl (RuntimeError ''Variant: illegal conversion''), snd ?n)"
    by (simp add: prod_eq_iff eval_defs)
  have i: "?i = (Inl (RuntimeError ''Invalid index''), snd ?i)"
    by (simp add: prod_eq_iff eval_defs)
  have r: "?r = (Inl (RuntimeError ''Invalid index''), snd ?r)"
    by (simp add: prod_eq_iff eval_defs)
  have f: "?f = (Inl (RuntimeError ''Invalid index''), snd ?f)"
    by (simp add: prod_eq_iff eval_defs)
  have c: "?c = (Inl (RuntimeError ''Branching factor must be at least 2''), snd ?c)"
    by (simp add: prod_eq_iff eval_defs)
  note cf = caught_failures [where env = test_env and dataset = None and rows = 100 and cols = 8
      and speedup = None and testset = None and tcount = 1 and result = None and dists = None
      and nn = 1 and clusters = 2]
  have e0: "fst (flann_build_index test_env None 100 8 None None test_world) = Inr None"
    using cf [where w = test_world] by simp
  have e1: "flann_build_index test_env None 100 8 None (Some 0) ?w9
       = (Inr None, (snd ?b)\<lparr>logged := logged (snd ?b) @
             [Error (''Caught exception: '' @ ''Variant: illegal conversion'')]\<rparr>)"
    using cf [where w = ?w9 and flann_params = "Some 0" and w' = "snd ?b"
        and what = "''Variant: illegal conversion''"] b by blast
  have e2: "flann_find_nearest_neighbors test_env None 100 8 None 1 None None 1 (Some 0) ?w9
       = (Inr (- 1), (snd ?n)\<lparr>logged := logged (snd ?n) @
             [Error (''Caught exception: '' @ ''Variant: illegal conversion'')]\<rparr>)"
    using cf [where w = ?w9 and flann_params = "Some 0" and w' = "snd ?n"
        and what = "''Variant: illegal conversion''"] n by blast
  have e3: "flann_find_nearest_neighbors_index test_env None None 1 None None 1 32 None test_world
       = (Inr (- 1), (snd ?i)\<lparr>logged := logged (snd ?i) @
             [Error (''Caught exception: '' @ ''Invalid index'')]\<rparr>)"
    using cf [where w = test_world and flann_params = None and index_ptr = None and checks' = 32
        and w' = "snd ?i" and what = "''Invalid index''"] i by blast
  have e4: "flann_radius_search test_env None None (Some 20) (Some 10) 2 1 32 None test_world
       = (Inr (- 1), (snd ?r)\<lparr>logged := logged (snd ?r) @
             [Error (''Caught exception: '' @ ''Invalid index'')]\<rparr>)"
    using caught_failures [where env = test_env and w = test_world and flann_params = None
        and index_ptr = None and query = None and indices = "Some 20" and dists = "Some 10"
        and max_nn = 2 and radius = 1 and checks' = 32
        and w' = "snd ?r" and what = "''Invalid index''"] r by blast
  have e5: "flann_free_index test_env None None test_world
       = (Inr (- 1), (snd ?f)\<lparr>logged := logged (snd ?f) @
             [Error (''Caught exception: '' @ ''Invalid index'')]\<rparr>)"
    using cf [where w = test_world and flann_params = None and index_ptr = None
        and w' = "snd ?f" and what = "''Invalid index''"] f by blast
  have e6: "flann_compute_cluster_centers test_env None 100 8 2 None (Some 0) test_world
       = (Inr (- 1), (snd ?c)\<lparr>logged := logged (snd ?c) @
             [Error (''Caught exception: '' @ ''Branching factor must be at least 2'')]\<rparr>)"
    using cf [where w = test_world and flann_params = "Some 0"
        and w' = "snd ?c" and what = "''Branching factor must be at least 2''"] c by blast
  show ?thesis
    by (simp add: e0 e1 e2 e3 e4 e5 e6)
qed

subsection \<open>Reasoning along the successful path\<close>

lemma ebind_Inr_iff:
  "(ebind m f w = (Inr v, w')) = (\<exists>u w1. m w = (Inr u, w1) \<and> f u w1 = (Inr v, w'))"
  by (auto simp add: ebind_def split: prod.splits sum.splits)

lemma ereturn_iff: "(ereturn v w = (r, w')) = (r = Inr v \<and> w' = w)"
  by (auto simp add: ereturn_def)

lemma throw_iff: "(throw e w = (r, w')) = (r = Inl e \<and> w' = w)"
  by (auto simp add: throw_def)

lemma lift_iff: "(lift x w = (r, w')) = (x = r \<and> w' = w)"
  by (auto simp add: lift_def)

lemma logger_info_iff:
  "(logger_info msg w = (r, w')) = (r = Inr () \<and> w' = w\<lparr>logged := logged w @ [Info msg]\<rparr>)"
  by (auto simp add: logger_info_def)

lemma call_ext_Inr_iff:
  "(call_ext c f w = (Inr v, w')) =
     (\<exists>x'. f (ext w) = (Inr v, x') \<and> w' = w\<lparr>calls := calls w @ [c], ext := x'\<rparr>)"
  by (auto simp add: call_ext_def Let_def split: prod.splits)

lemma on_live_Inr_iff: "(on_live h m w = (Inr v, w')) = (h \<in> live w \<and> m w = (Inr v, w'))"
  by (simp add: on_live_def)

lemma new_object_Inr_iff:
  "(new_object m w = (Inr h, w')) = (\<exists>w1. m w = (Inr h, w1) \<and> w' = w1\<lparr>live := insert h (live w1)\<rparr>)"
  by (auto simp add: new_object_def ebind_Inr_iff)

lemma new_Autotune_iff:
  "(new_Autotune bw mw sf w = (r, w')) =
     (r = Inr (Autotune bw mw sf) \<and> w' = w\<lparr>calls := calls w @ [Call_Autotune bw mw sf]\<rparr>)"
  by (auto simp add: new_Autotune_def)

lemma read_params_Inr_iff:
  "(read_params p w = (Inr v, w')) = (\<exists>a. p = Some a \<and> params_mem w a = Some v \<and> w' = w)"
  by (auto simp add: read_params_def split: option.splits)

lemma write_params_Inr_iff:
  "(write_params p v w = (Inr u, w')) =
     (\<exists>a. p = Some a \<and> params_mem w a \<noteq> None \<and> w' = w\<lparr>params_mem := (params_mem w)(a \<mapsto> v)\<rparr>)"
  by (auto simp add: write_params_def split: option.splits)

lemma write_float_Inr_iff:
  "(write_float p i v w = (Inr u, w')) =
     (\<exists>a. p = Some a \<and> float_mem w (a + nat i) \<noteq> None
          \<and> w' = w\<lparr>float_mem := (float_mem w)(a + nat i \<mapsto> v)\<rparr>)"
  by (auto simp add: write_float_def split: option.splits)

lemma try_catch_Inr_iff:
  "(try_catch_runtime_error m (caught s) w = (Inr v, w')) =
     (m w = (Inr v, w') \<or>
      (\<exists>what w1. m w = (Inl (RuntimeError what), w1) \<and> v = s
          \<and> w' = w1\<lparr>logged := logged w1 @ [Error (''Caught exception: '' @ what)]\<rparr>))"
  by (auto simp add: try_catch_runtime_error_def caught_def ebind_def logger_error_def ereturn_def
      split: prod.splits sum.splits exn.splits)

lemmas success_simps = ebind_Inr_iff ereturn_iff throw_iff lift_iff logger_info_iff call_ext_Inr_iff
  on_live_Inr_iff new_object_Inr_iff new_Autotune_iff read_params_Inr_iff write_params_Inr_iff
  write_float_Inr_iff try_catch_Inr_iff modify_params_def

subsection \<open>flann_build_index: the caller's block after autotuning\<close>

text \<open>
  Claim C9. When \<open>flann_build_index\<close> is called with \<open>target_precision \<ge> 0\<close> and returns
  an index, the caller's block has been overwritten with the result of
  \<open>paramsToParameters\<close> on the tuned map, and in it \<open>target_precision\<close>, \<open>build_weight\<close>,
  \<open>memory_weight\<close> and \<open>sample_fraction\<close> have the values that the caller passed in.
\<close>

theorem flann_build_index_restores:
  assumes "params_mem w a = Some fp" and "0 \<le> target_precision fp"
    and "flann_build_index env dataset rows cols speedup (Some a) w = (Inr (Some index), w')"
  shows "\<exists>params q. paramsToParameters (uninitialized env) params = Inr q
           \<and> params_mem w' a = Some (q\<lparr>target_precision := target_precision fp,
                                        build_weight := build_weight fp,
                                        memory_weight := memory_weight fp,
                                        sample_fraction := sample_fraction fp\<rparr>)"
proof -
  from init_flann_parameters_frame [OF assms(1)] obtain w1 where
    w1: "init_flann_parameters (Some a) w = (Inr (), w1)" "params_mem w1 = params_mem w" by blast
  from assms w1 show ?thesis
    by (auto simp add: flann_build_index_def flann_build_index_try_def
      Let_def success_simps ext_defs split: if_splits; blast)
qed

theorem flann_build_index_restores_witness:
  "params_mem (test_world_with (test_params\<lparr>target_precision := 0.9\<rparr>)) 0
     = Some (test_params\<lparr>target_precision := 0.9\<rparr>)
   \<and> 0 \<le> target_precision (test_params\<lparr>target_precision := 0.9\<rparr>)
   \<and> fst (flann_build_index test_env None 100 8 (Some 0) (Some 0)
            (test_world_with (test_params\<lparr>target_precision := 0.9\<rparr>))) = Inr (Some 2)
   \<and> (\<exists>params q. paramsToParameters (uninitialized test_env) params = Inr q
        \<and> params_mem (snd (flann_build_index test_env None 100 8 (Some 0) (Some 0)
                             (test_world_with (test_params\<lparr>target_precision := 0.9\<rparr>)))) 0
            = Some (q\<lparr>target_precision := 0.9, build_weight := 0.01, memory_weight := 0,
                      sample_fraction := 0.1\<rparr>))"
proof -
  let ?p = "test_params\<lparr>target_precision := 0.9\<rparr>"
  let ?run = "flann_build_index test_env None 100 8 (Some 0) (Some 0) (test_world_with ?p)"
  have m: "params_mem (test_world_with ?p) 0 = Some ?p" by (simp add: test_defs)
  have t: "0 \<le> target_precision ?p" by simp
  have f: "fst ?run = Inr (Some 2)" by (simp add: eval_defs)
  then have r: "?run = (Inr (Some 2), snd ?run)" by (simp add: prod_eq_iff)
  have v: "target_precision ?p = 0.9" "build_weight ?p = 0.01" "memory_weight ?p = 0"
    "sample_fraction ?p = 0.1"
    by (simp_all add: test_params_def)
  from flann_build_index_restores [OF m t r]
  have "\<exists>params q. paramsToParameters (uninitialized test_env) params = Inr q
        \<and> params_mem (snd ?run) 0
            = Some (q\<lparr>target_precision := 0.9, build_weight := 0.01, memory_weight := 0,
                      sample_fraction := 0.1\<rparr>)"
    by (simp only: v)
  with m t f show ?thesis by blast
qed

subsection \<open>flann_build_index: when the autotuner runs\<close>

lemma appendsI:
  "(\<And>w r w'. m w = (r, w') \<Longrightarrow> \<exists>cs. calls w' = calls w @ cs \<and> list_all P cs) \<Longrightarrow> appends P m"
  by (simp add: appends_def)

lemma appendsD:
  "appends P m \<Longrightarrow> m w = (r, w') \<Longrightarrow> \<exists>cs. calls w' = calls w @ cs \<and> list_all P cs"
  by (simp add: appends_def)

lemma appends_same:
  "(\<And>w r w'. m w = (r, w') \<Longrightarrow> calls w' = calls w) \<Longrightarrow> appends P m"
  by (rule appendsI) simp

lemma appends_ebind:
  assumes "appends P m" and "\<And>v. appends P (f v)"
  shows "appends P (ebind m f)"
proof (rule appendsI)
  fix w r w'
  assume run: "ebind m f w = (r, w')"
  obtain r1 w1 where m: "m w = (r1, w1)" by (cases "m w")
  from appendsD [OF assms(1) m] obtain cs where cs: "calls w1 = calls w @ cs" "list_all P cs"
    by blast
  show "\<exists>cs. calls w' = calls w @ cs \<and> list_all P cs"
  proof (cases r1)
    case (Inl e)
    with run m have "w' = w1" by (simp add: ebind_def)
    with cs show ?thesis by blast
  next
    case (Inr v)
    with run m have "f v w1 = (r, w')" by (simp add: ebind_def)
    from appendsD [OF assms(2) this] obtain ds where "calls w' = calls w1 @ ds" "list_all P ds"
      by blast
    with cs have "calls w' = calls w @ (cs @ ds) \<and> list_all P (cs @ ds)" by simp
    then show ?thesis by blast
  qed
qed

lemma appends_if:
  "appends P m1 \<Longrightarrow> appends P m2 \<Longrightarrow> appends P (if b then m1 else m2)"
  by simp

lemma appends_basic:
  "appends P (ereturn v)" "appends P (throw e)" "appends P (lift x)"
  "appends P (logger_info msg)" "appends P (logger_error msg)"
  "appends P (read_params p)" "appends P (write_params p fp)" "appends P (write_float p i x')"
  by (rule appends_same; auto simp add: comp_defs split: option.splits)+

lemma appends_modify_params: "appends P (modify_params p f)"
  unfolding modify_params_def by (intro appends_ebind appends_basic)

lemma appends_call_ext: "P c \<Longrightarrow> appends P (call_ext c f)"
  by (rule appendsI) (auto simp add: call_ext_def Let_def split: prod.splits)

lemma appends_on_live: "appends P m \<Longrightarrow> appends P (on_live h m)"
  by (rule appendsI) (auto simp add: on_live_def dest: appendsD split: if_splits)

lemma appends_new_object: "appends P m \<Longrightarrow> appends P (new_object m)"
  unfolding new_object_def
  by (rule appends_ebind, assumption, rule appends_same) auto

lemma appends_new_Autotune: "P (Call_Autotune bw mw sf) \<Longrightarrow> appends P (new_Autotune bw mw sf)"
  by (rule appendsI) (auto simp add: new_Autotune_def)

lemmas appends_intros = appends_ebind appends_if appends_basic appends_modify_params
  appends_call_ext appends_on_live appends_new_object appends_new_Autotune

lemma try_catch_calls:
  assumes "try_catch_runtime_error m (caught s) w = (r, w')"
  shows "\<exists>r0 w0. m w = (r0, w0) \<and> calls w' = calls w0"
  using assms
  by (auto simp add: try_catch_runtime_error_def caught_def ebind_def logger_error_def ereturn_def
      split: prod.splits sum.splits exn.splits)

lemma appends_run:
  "m w = (r, w') \<Longrightarrow> appends P m \<Longrightarrow> \<exists>cs. calls w' = calls w @ cs \<and> list_all P cs"
  by (simp add: appends_def)

lemma first_call_Autotune:
  assumes "ebind (new_Autotune bw mw sf) f w = (r, w')" and "\<And>v. appends (\<lambda>c. True) (f v)"
  shows "\<exists>ds. calls w' = calls w @ Call_Autotune bw mw sf # ds"
proof -
  from assms(1) have "f (Autotune bw mw sf) (w\<lparr>calls := calls w @ [Call_Autotune bw mw sf]\<rparr>) = (r, w')"
    by (simp add: ebind_def new_Autotune_def)
  from appends_run [OF this assms(2)] show ?thesis by auto
qed

lemma not_list_ex: "list_all (\<lambda>c. \<not> P c) cs \<Longrightarrow> \<not> list_ex P cs"
  by (simp add: list_all_iff list_ex_iff)

lemma build_try_calls:
  assumes mem: "params_mem w a = Some fp"
    and run: "flann_build_index_try env dataset rows cols speedup (Some a) w = (r, w')"
  shows "\<exists>cs. calls w' = calls w @ cs \<and>
           (if 0 \<le> target_precision fp \<and> 0 \<le> build_weight fp \<and> 0 \<le> memory_weight fp
            then \<exists>ds. cs = Call_Autotune (build_weight fp) (memory_weight fp) (sample_fraction fp) # ds
            else list_all (\<lambda>c. \<not> is_autotuner_call c) cs)"
proof -
  from init_flann_parameters_frame [OF mem] obtain w1 where
    init: "init_flann_parameters (Some a) w = (Inr (), w1)" and
    frame: "params_mem w1 = params_mem w" "calls w1 = calls w" by blast
  have rd: "read_params (Some a) w1 = (Inr fp, w1)"
    by (simp add: read_params_def frame mem)
  have s1: "\<And>f. ebind (init_flann_parameters (Some a)) f w = f () w1"
    by (simp add: ebind_def init)
  have s2: "\<And>f. ebind (read_params (Some a)) f w1 = f fp w1"
    by (simp add: ebind_def rd)
  consider (direct) "target_precision fp < 0"
    | (guard) "0 \<le> target_precision fp" "build_weight fp < 0 \<or> memory_weight fp < 0"
    | (tune) "0 \<le> target_precision fp" "0 \<le> build_weight fp" "0 \<le> memory_weight fp"
    by linarith
  then show ?thesis
  proof cases
    case direct
    with run have "\<exists>cs. calls w' = calls w1 @ cs \<and> list_all (\<lambda>c. \<not> is_autotuner_call c) cs"
      unfolding flann_build_index_try_def
      apply (simp add: s1 s2 Let_def)
      apply (erule appends_run)
      apply (unfold ext_defs)
      apply (intro appends_intros; simp)
      done
    with direct frame show ?thesis by auto
  next
    case guard
    with run have "calls w' = calls w1"
      unfolding flann_build_index_try_def
      by (auto simp add: s1 s2 Let_def throw_def split: if_splits)
    with guard frame show ?thesis by auto
  next
    case tune
    with run have "\<exists>ds. calls w' = calls w1 @ Call_Autotune (build_weight fp) (memory_weight fp) (sample_fraction fp) # ds"
      unfolding flann_build_index_try_def
      apply (simp add: s1 s2 Let_def not_less [symmetric])
      apply (erule first_call_Autotune)
      apply (unfold ext_defs)
      apply (intro appends_intros; simp)
      done
    with tune frame show ?thesis by auto
  qed
qed

lemma build_direct_success:
  assumes mem: "params_mem w a = Some fp" and "target_precision fp < 0"
    and run: "flann_build_index env dataset rows cols speedup (Some a) w = (Inr (Some index), w')"
  shows "\<exists>name. parametersToParams fp ''algorithm'' = Some (VString name) \<and>
             calls w' = calls w @
               [Call_create_index name (Dataset rows cols dataset) (parametersToParams fp),
                Call_buildIndex index]"
proof -
  from init_flann_parameters_frame [OF mem] obtain w1 where
    w1: "init_flann_parameters (Some a) w = (Inr (), w1)" "params_mem w1 = params_mem w"
      "calls w1 = calls w" by blast
  from assms w1 show ?thesis
    by (auto simp add: flann_build_index_def flann_build_index_try_def
      Let_def success_simps ext_defs elim!: to_cstr.elims)
qed

text \<open>
  Claim C2, as the code has it. The claim lets the autotuner run whenever
  \<open>target_precision \<ge> 0\<close>; the source first rejects a negative \<open>build_weight\<close> or
  \<open>memory_weight\<close>, before the autotuner is constructed. What holds, for every call with
  the address of a parameter block: the autotuner is invoked if and only if
  \<open>target_precision \<ge> 0\<close> and neither weight is negative. When \<open>target_precision < 0\<close>
  no call goes to the autotuner, and a call that returns an index has made two calls and
  no more: \<open>create_index\<close> with the name and the map that \<open>parametersToParams\<close> makes from
  the caller's block, and \<open>buildIndex\<close> on the index that is returned.
\<close>

theorem flann_build_index_autotuner_iff:
  assumes "params_mem w a = Some fp"
    and "flann_build_index env dataset rows cols speedup (Some a) w = (r, w')"
  shows "(autotuner_invoked w w' \<longleftrightarrow>
            0 \<le> target_precision fp \<and> 0 \<le> build_weight fp \<and> 0 \<le> memory_weight fp)
       \<and> (target_precision fp < 0 \<and> r = Inr (Some index) \<longrightarrow>
            (\<exists>name. parametersToParams fp ''algorithm'' = Some (VString name) \<and>
             new_calls w w' =
               [Call_create_index name (Dataset rows cols dataset) (parametersToParams fp),
                Call_buildIndex index]))"
proof
  from assms(2) obtain r0 w0 where
    body: "flann_build_index_try env dataset rows cols speedup (Some a) w = (r0, w0)"
    and same: "calls w' = calls w0"
    unfolding flann_build_index_def by (blast dest: try_catch_calls)
  from build_try_calls [OF assms(1) body] same
  show "autotuner_invoked w w' \<longleftrightarrow>
            0 \<le> target_precision fp \<and> 0 \<le> build_weight fp \<and> 0 \<le> memory_weight fp"
    by (auto simp add: autotuner_invoked_def new_calls_def dest: not_list_ex split: if_splits)
next
  show "target_precision fp < 0 \<and> r = Inr (Some index) \<longrightarrow>
            (\<exists>name. parametersToParams fp ''algorithm'' = Some (VString name) \<and>
             new_calls w w' =
               [Call_create_index name (Dataset rows cols dataset) (parametersToParams fp),
                Call_buildIndex index])"
  proof
    assume h: "target_precision fp < 0 \<and> r = Inr (Some index)"
    with assms build_direct_success [of w a fp env dataset rows cols speedup index w']
    show "\<exists>name. parametersToParams fp ''algorithm'' = Some (VString name) \<and>
             new_calls w w' =
               [Call_create_index name (Dataset rows cols dataset) (parametersToParams fp),
                Call_buildIndex index]"
      by (auto simp add: new_calls_def)
  qed
qed

theorem flann_build_index_autotuner_iff_witness:
  "params_mem test_world 0 = Some test_params \<and> target_precision test_params < 0
   \<and> fst (flann_build_index test_env None 100 8 None (Some 0) test_world) = Inr (Some 2)
   \<and> \<not> autotuner_invoked test_world (snd (flann_build_index test_env None 100 8 None (Some 0) test_world))
   \<and> (\<exists>name. parametersToParams test_params ''algorithm'' = Some (VString name) \<and>
         new_calls test_world (snd (flann_build_index test_env None 100 8 None (Some 0) test_world))
           = [Call_create_index name (Dataset 100 8 None) (parametersToParams test_params),
              Call_buildIndex 2])"
proof -
  let ?run = "flann_build_index test_env None 100 8 None (Some 0) test_world"
  have m: "params_mem test_world 0 = Some test_params" by (simp add: test_defs)
  have f: "fst ?run = Inr (Some 2)" by (simp add: eval_defs)
  then have r: "?run = (Inr (Some 2), snd ?run)" by (simp add: prod_eq_iff)
  have t: "target_precision test_params < 0" by (simp add: test_params_def)
  from flann_build_index_autotuner_iff [OF m r, of 2] t
  have "\<not> autotuner_invoked test_world (snd ?run)
     \<and> (\<exists>name. parametersToParams test_params ''algorithm'' = Some (VString name) \<and>
         new_calls test_world (snd ?run)
           = [Call_create_index name (Dataset 100 8 None) (parametersToParams test_params),
              Call_buildIndex 2])"
    by simp
  with m t f show ?thesis by blast
qed

text \<open>
  The claim as it was stated fails on a block with \<open>target_precision = 0.9\<close> and
  \<open>build_weight = -1\<close>: no call goes to the autotuner.
\<close>

theorem flann_build_index_autotuner_iff_counterexample:
  "params_mem (test_world_with (test_params\<lparr>target_precision := 0.9, build_weight := - 1\<rparr>)) 0
     = Some (test_params\<lparr>target_precision := 0.9, build_weight := - 1\<rparr>)
   \<and> 0 \<le> target_precision (test_params\<lparr>target_precision := 0.9, build_weight := - 1\<rparr>)
   \<and> \<not> autotuner_invoked
         (test_world_with (test_params\<lparr>target_precision := 0.9, build_weight := - 1\<rparr>))
         (snd (flann_build_index test_env None 100 8 None (Some 0)
                (test_world_with (test_params\<lparr>target_precision := 0.9, build_weight := - 1\<rparr>))))"
  by (simp add: eval_defs autotuner_invoked_def new_calls_def)

subsection \<open>flann_build_index: negative weights\<close>

lemma build_guard_result:
  assumes "params_mem w a = Some fp" and "0 \<le> target_precision fp"
    and "build_weight fp < 0 \<or> memory_weight fp < 0"
    and "init_flann_parameters (Some a) w = (Inr (), w1)" and "params_mem w1 = params_mem w"
  shows "flann_build_index env dataset rows cols speedup (Some a) w
        = (Inr None, w1\<lparr>logged := logged w1 @
             [Error (''Caught exception: '' @
                (if build_weight fp < 0 then ''The index_params.build_weight must be positive.''
                 else ''The index_params.memory_weight must be positive.''))]\<rparr>)"
  using assms
  by (auto simp add: flann_build_index_def flann_build_index_try_def
      Let_def ebind_def throw_def FLANNException_def try_catch_runtime_error_def caught_def
      logger_error_def ereturn_def read_params_def)

text \<open>
  Claim C5, as the code has it. The claim rejects a negative weight in every call; the
  source looks at the weights only on the autotuning path. What holds: for every call with
  the address of a parameter block in which \<open>target_precision \<ge> 0\<close> and \<open>build_weight\<close>
  or \<open>memory_weight\<close> is negative, the call logs the error that names the weight (the
  build weight when both are negative) and returns the null handle.
\<close>

theorem flann_build_index_negative_weight:
  assumes "params_mem w a = Some fp" and "0 \<le> target_precision fp"
    and "build_weight fp < 0 \<or> memory_weight fp < 0"
  shows "\<exists>w1. init_flann_parameters (Some a) w = (Inr (), w1)
     \<and> flann_build_index env dataset rows cols speedup (Some a) w
        = (Inr None, w1\<lparr>logged := logged w1 @
             [Error (''Caught exception: '' @
                (if build_weight fp < 0 then ''The index_params.build_weight must be positive.''
                 else ''The index_params.memory_weight must be positive.''))]\<rparr>)"
proof -
  from init_flann_parameters_frame [OF assms(1)] obtain w1 where
    w1: "init_flann_parameters (Some a) w = (Inr (), w1)" "params_mem w1 = params_mem w" by blast
  from build_guard_result [OF assms w1] w1(1) show ?thesis by blast
qed

theorem flann_build_index_negative_weight_witness:
  "params_mem (test_world_with (test_params\<lparr>target_precision := 0.9, memory_weight := - 1\<rparr>)) 0
     = Some (test_params\<lparr>target_precision := 0.9, memory_weight := - 1\<rparr>)
   \<and> 0 \<le> target_precision (test_params\<lparr>target_precision := 0.9, memory_weight := - 1\<rparr>)
   \<and> memory_weight (test_params\<lparr>target_precision := 0.9, memory_weight := - 1\<rparr>) < 0
   \<and> fst (flann_build_index test_env None 100 8 None (Some 0)
        (test_world_with (test_params\<lparr>target_precision := 0.9, memory_weight := - 1\<rparr>))) = Inr None
   \<and> logged (snd (flann_build_index test_env None 100 8 None (Some 0)
        (test_world_with (test_params\<lparr>target_precision := 0.9, memory_weight := - 1\<rparr>))))
      = [Error ''Caught exception: The index_params.memory_weight must be positive.'']"
proof -
  let ?p = "test_params\<lparr>target_precision := 0.9, memory_weight := - 1\<rparr>"
  let ?run = "flann_build_index test_env None 100 8 None (Some 0) (test_world_with ?p)"
  have m: "params_mem (test_world_with ?p) 0 = Some ?p" by (simp add: test_defs)
  have t: "0 \<le> target_precision ?p" by simp
  have b: "build_weight ?p < 0 \<or> memory_weight ?p < 0" by simp
  have i: "logged (snd (init_flann_parameters (Some 0) (test_world_with ?p))) = []"
    by (simp add: eval_defs)
  have nb: "\<not> build_weight ?p < 0" by (simp add: test_params_def)
  from flann_build_index_negative_weight [OF m t b, of test_env None 100 8 None] i nb
  have "fst ?run = Inr None
     \<and> logged (snd ?run) = [Error ''Caught exception: The index_params.memory_weight must be positive.'']"
    by auto
  with m t show ?thesis by simp
qed

text \<open>
  The claim as it was stated fails on a block with \<open>build_weight = -1\<close> and
  \<open>target_precision = -1\<close>: the index is built and its handle returned.
\<close>

theorem flann_build_index_negative_weight_counterexample:
  "params_mem (test_world_with (test_params\<lparr>build_weight := - 1\<rparr>)) 0
     = Some (test_params\<lparr>build_weight := - 1\<rparr>)
   \<and> build_weight (test_params\<lparr>build_weight := - 1\<rparr>) < 0
   \<and> fst (flann_build_index test_env None 100 8 None (Some 0)
            (test_world_with (test_params\<lparr>build_weight := - 1\<rparr>))) = Inr (Some 2)"
  by (simp add: eval_defs)

subsection \<open>flann_radius_search: the output arrays\<close>

text \<open>
  Claim C1 says that the return value is the number of points found and that only the
  first \<open>max_nn\<close> of them are written. The first half holds; the second does not: the
  copying loop runs to the size of the result set and never reads \<open>max_nn\<close>. In the
  test configuration three points lie within radius 1 and the caller's arrays have
  \<open>max_nn = 2\<close> entries: the call returns 3, and the cell after each array, which held
  99, holds the third neighbour and its distance afterwards.
\<close>

theorem flann_radius_search_writes_past_max_nn:
  "fst (flann_radius_search test_env (Some 1) None (Some 20) (Some 10) 2 1 32 None test_world) = Inr 3
   \<and> int_mem test_world 22 = Some 99
   \<and> int_mem (snd (flann_radius_search test_env (Some 1) None (Some 20) (Some 10) 2 1 32 None test_world)) 22
       = Some 6
   \<and> float_mem test_world 12 = Some 99
   \<and> float_mem (snd (flann_radius_search test_env (Some 1) None (Some 20) (Some 10) 2 1 32 None test_world)) 12
       = Some 1"
  by (simp add: eval_defs)

end
